theory Spec2Isabelle
  imports Main "HOL-Library.AList" "HOL-Library.Sublist"
begin

section \<open>Python values, strings and exceptions\<close>

text \<open>
  The webservice is one Python module, \<^verbatim>\<open>webservice/__main__.py\<close>: four aiohttp
  handlers that read query parameters and environment variables, call the Nexmo client
  and answer with JSON or an empty response.

  A Python \<^verbatim>\<open>str\<close> is modelled as a HOL \<^typ>\<open>string\<close> whose characters are the code
  points below 256; the string methods below are Python's, restricted to that range.
  The values the handlers put into dictionaries are \<^verbatim>\<open>None\<close>, booleans, strings,
  lists and dictionaries. A dictionary is an association list in insertion order.
\<close>

datatype json =
    JNull
  | JBool bool
  | JStr string
  | JList "json list"
  | JObj "(string \<times> json) list"

type_synonym dict = "(string \<times> json) list"

text \<open>\<^verbatim>\<open>d.update(e)\<close>: a key of \<open>e\<close> already in \<open>d\<close> keeps its place, a new one goes last.\<close>

definition dict_update :: "dict \<Rightarrow> dict \<Rightarrow> dict" where
  "dict_update d e = foldl (\<lambda>acc (k, v). AList.update k v acc) d e"

text \<open>A value of \<^verbatim>\<open>os.environ.get\<close> stored in a dictionary: \<^verbatim>\<open>None\<close> or the string.\<close>

fun opt_json :: "string option \<Rightarrow> json" where
  "opt_json None = JNull"
| "opt_json (Some s) = JStr s"

text \<open>A replacement field \<^verbatim>\<open>{x}\<close> of an f-string: \<^verbatim>\<open>str(None)\<close> is \<^verbatim>\<open>'None'\<close>.\<close>

fun format :: "string option \<Rightarrow> string" where
  "format None = ''None''"
| "format (Some s) = s"

text \<open>\<^verbatim>\<open>str.isspace\<close> on one character: the white space of Unicode below 256.\<close>

definition isspace :: "char \<Rightarrow> bool" where
  "isspace c =
     (let n = (of_char c :: nat)
      in (9 \<le> n \<and> n \<le> 13) \<or> (28 \<le> n \<and> n \<le> 32) \<or> n = 133 \<or> n = 160)"

definition lstrip :: "string \<Rightarrow> string" where
  "lstrip s = dropWhile isspace s"

definition rstrip :: "string \<Rightarrow> string" where
  "rstrip s = rev (dropWhile isspace (rev s))"

definition strip :: "string \<Rightarrow> string" where
  "strip s = rstrip (lstrip s)"

text \<open>
  \<^verbatim>\<open>str.lower\<close>: below 256 the upper-case letters are A to Z and U+00C0 to U+00DE
  without the multiplication sign U+00D7; each has its lower-case form 32 places up.
\<close>

definition lower_char :: "char \<Rightarrow> char" where
  "lower_char c =
     (let n = (of_char c :: nat)
      in if (65 \<le> n \<and> n \<le> 90) \<or> (192 \<le> n \<and> n \<le> 222 \<and> n \<noteq> 215)
         then char_of (n + 32) else c)"

definition lower :: "string \<Rightarrow> string" where
  "lower s = map lower_char s"

text \<open>
  The exceptions a handler can end with. \<open>KeyError k\<close> is what indexing a multidict
  with an absent key \<open>k\<close> raises; \<open>TypeError\<close> and \<open>JSONDecodeError\<close> come from
  \<^verbatim>\<open>json.loads\<close>; \<open>IndexError\<close> from \<^verbatim>\<open>random.choice\<close> on an empty sequence;
  \<open>NexmoError\<close> is \<^verbatim>\<open>nexmo.Error\<close> with its message, and \<open>OtherException\<close> is
  anything else a client call raises (a transport failure, say).
\<close>

datatype error =
    KeyError string
  | TypeError
  | JSONDecodeError
  | IndexError
  | NexmoError string
  | OtherException string

section \<open>Configuration, provider and requests\<close>

record staff =
  name :: string
  phone :: string

record client =
  key :: "string option"
  secret :: "string option"
  application_id :: "string option"
  private_key :: "string option"

text \<open>The four client methods the handlers call, with their arguments.\<close>

datatype provider_request =
    CreateCall dict
  | SendSpeech string string
  | SendMessage dict
  | GetRecording string

text \<open>
  What the module does not own: the process environment, the JSON decoder applied to
  \<^verbatim>\<open>PHONE_NUMBERS\<close> (its result taken in the shape the docstring of
  \<^verbatim>\<open>get_phone_numbers\<close> documents, a list of objects with a string \<^verbatim>\<open>name\<close> and a
  string \<^verbatim>\<open>phone\<close>), and the provider: given the client, the requests made so far and
  the next request, it returns a reply (as the text \<^verbatim>\<open>str\<close> gives, or the bytes of a
  recording) or raises.
\<close>

record world =
  environ :: "string \<rightharpoonup> string"
  json_loads :: "string \<Rightarrow> error + staff list"
  nexmo :: "client \<Rightarrow> provider_request list \<Rightarrow> provider_request \<Rightarrow> error + string"

text \<open>The effects of a handler: the provider requests issued and the lines printed.\<close>

record state =
  sent :: "provider_request list"
  stdout :: "string list"

record request =
  query :: "string \<rightharpoonup> string"
  match_info :: "string \<rightharpoonup> string"
  host :: string

datatype body = NoBody | JsonBody json | BytesBody string

record response =
  status :: nat
  content_type :: "string option"
  body :: body

text \<open>\<^verbatim>\<open>web.json_response(data)\<close>: status 200, the data serialised as JSON.\<close>

definition json_response :: "json \<Rightarrow> response" where
  "json_response data =
     \<lparr>status = 200, content_type = Some ''application/json'', body = JsonBody data\<rparr>"

text \<open>\<^verbatim>\<open>request.rel_url.query[k]\<close> and \<^verbatim>\<open>request.match_info[k]\<close>.\<close>

definition query_get :: "request \<Rightarrow> string \<Rightarrow> error + string" where
  "query_get req k = (case query req k of None \<Rightarrow> Inl (KeyError k) | Some v \<Rightarrow> Inr v)"

definition match_info_get :: "request \<Rightarrow> string \<Rightarrow> error + string" where
  "match_info_get req k =
     (case match_info req k of None \<Rightarrow> Inl (KeyError k) | Some v \<Rightarrow> Inr v)"

text \<open>
  \<^verbatim>\<open>random.choice(seq)\<close> is \<^verbatim>\<open>seq[randbelow(len(seq))]\<close>; the draw of the random
  source is the argument \<open>rnd\<close>, reduced to an index below the length.
\<close>

definition random_choice :: "nat \<Rightarrow> 'a list \<Rightarrow> error + 'a" where
  "random_choice rnd xs = (if xs = [] then Inl IndexError else Inr (xs ! (rnd mod length xs)))"

text \<open>A client method call: the request is issued, then the provider answers or raises.\<close>

definition call_provider ::
  "world \<Rightarrow> client \<Rightarrow> provider_request \<Rightarrow> state \<Rightarrow> (error + string) \<times> state" where
  "call_provider w c q st = (nexmo w c (sent st) q, st\<lparr>sent := sent st @ [q]\<rparr>)"

definition print :: "string \<Rightarrow> state \<Rightarrow> state" where
  "print line st = st\<lparr>stdout := stdout st @ [line]\<rparr>"

section \<open>The module\<close>

definition MUSIC_WHILE_YOU_WAIT :: "string list" where
  "MUSIC_WHILE_YOU_WAIT =
    [''https://assets.ctfassets.net/j7pfe8y48ry3/530pLnJVZmiUu8mkEgIMm2/dd33d28ab6af9a2d32681ae80004886e/oaklawn-dreams.mp3'',
     ''https://assets.ctfassets.net/j7pfe8y48ry3/2toXv1xuOsMm0Yku0YEGya/a792ce81a7866fc77f6768d416018012/broken-shovel.mp3'',
     ''https://assets.ctfassets.net/j7pfe8y48ry3/16VJzaewWsKWg4GsSUiwGi/9b715be5e8c850e46de98b64e6d31141/lennys-song.mp3'',
     ''https://assets.ctfassets.net/j7pfe8y48ry3/1qApZVYkxaiayA6aysGAOo/8983586c8ab4db8b69490718469a12f5/new-juno.mp3'',
     ''https://assets.ctfassets.net/j7pfe8y48ry3/6iXXKtJCp2oCMiGmsmAKqu/8163a8fe863405292ba3609193593add/davis-square-shuffle.mp3'']"

text \<open>
  \<^verbatim>\<open>get_nexmo_client\<close> reads the four credentials, each \<^verbatim>\<open>None\<close> when unset, and
  hands them to the constructor of the library's client, which is taken to return.
\<close>

definition get_nexmo_client :: "world \<Rightarrow> client" where
  "get_nexmo_client w =
     \<lparr>key = environ w ''NEXMO_API_KEY'',
      secret = environ w ''NEXMO_API_SECRET'',
      application_id = environ w ''NEXMO_APP_ID'',
      private_key = environ w ''NEXMO_PRIVATE_KEY_VOICE_APP''\<rparr>"

text \<open>\<^verbatim>\<open>json.loads(None)\<close>, when the variable is not set, raises \<^verbatim>\<open>TypeError\<close>.\<close>

definition get_phone_numbers :: "world \<Rightarrow> error + staff list" where
  "get_phone_numbers w =
     (case environ w ''PHONE_NUMBERS'' of
        None \<Rightarrow> Inl TypeError
      | Some s \<Rightarrow> json_loads w s)"

text \<open>The loop of \<^verbatim>\<open>get_phone_number_owner\<close>: the first entry with that phone number.\<close>

fun owner_loop :: "staff list \<Rightarrow> string \<Rightarrow> string option" where
  "owner_loop [] phone_number = None"
| "owner_loop (phone_number_info # rest) phone_number =
     (if phone phone_number_info = phone_number then Some (name phone_number_info)
      else owner_loop rest phone_number)"

definition get_phone_number_owner :: "world \<Rightarrow> string \<Rightarrow> error + string option" where
  "get_phone_number_owner w phone_number =
     (case get_phone_numbers w of
        Inl e \<Rightarrow> Inl e
      | Inr phone_numbers \<Rightarrow> Inr (owner_loop phone_numbers phone_number))"

definition get_hotline_description :: "world \<Rightarrow> string option" where
  "get_hotline_description w = environ w ''HOTLINE_DESC''"

definition is_auto_recording :: "world \<Rightarrow> bool" where
  "is_auto_recording w =
     (let autorecord_flag = (case environ w ''AUTO_RECORD'' of None \<Rightarrow> ''false'' | Some s \<Rightarrow> s)
      in lower autorecord_flag = ''true'')"

subsection \<open>\<^verbatim>\<open>answer_call\<close>, GET /webhook/answer/\<close>

definition answer_url :: "string \<Rightarrow> string \<Rightarrow> string \<Rightarrow> string" where
  "answer_url h conversation_uuid call_uuid =
     ''http://'' @ h @ ''/webhook/answer_conference_call/'' @ conversation_uuid @ ''/''
       @ call_uuid @ ''/''"

definition create_call_params :: "string \<Rightarrow> string \<Rightarrow> string \<Rightarrow> string \<Rightarrow> staff \<Rightarrow> dict" where
  "create_call_params hotline_number h conversation_uuid call_uuid phone_number_dict =
     [(''to'', JList [JObj [(''type'', JStr ''phone''),
                            (''number'', JStr (phone phone_number_dict))]]),
      (''from'', JObj [(''type'', JStr ''phone''), (''number'', JStr hotline_number)]),
      (''answer_url'', JList [JStr (answer_url h conversation_uuid call_uuid)]),
      (''machine_detection'', JStr ''hangup'')]"

text \<open>The dialling loop: an exception of \<^verbatim>\<open>create_call\<close> ends it and the handler.\<close>

fun create_calls ::
  "world \<Rightarrow> client \<Rightarrow> string \<Rightarrow> string \<Rightarrow> string \<Rightarrow> string \<Rightarrow> staff list \<Rightarrow> state
     \<Rightarrow> (error + unit) \<times> state" where
  "create_calls w c hotline_number h conversation_uuid call_uuid [] st = (Inr (), st)"
| "create_calls w c hotline_number h conversation_uuid call_uuid (phone_number_dict # rest) st =
     (case call_provider w c
             (CreateCall (create_call_params hotline_number h conversation_uuid call_uuid
                            phone_number_dict)) st of
        (Inl e, st') \<Rightarrow> (Inl e, st')
      | (Inr _, st') \<Rightarrow> create_calls w c hotline_number h conversation_uuid call_uuid rest st')"

definition answer_call :: "world \<Rightarrow> nat \<Rightarrow> request \<Rightarrow> state \<Rightarrow> (error + response) \<times> state" where
  "answer_call w rnd req st =
     (case query_get req ''to'' of Inl e \<Rightarrow> (Inl e, st) | Inr hotline_number \<Rightarrow>
     (case query_get req ''conversation_uuid'' of Inl e \<Rightarrow> (Inl e, st) | Inr cu \<Rightarrow>
     (case query_get req ''uuid'' of Inl e \<Rightarrow> (Inl e, st) | Inr u \<Rightarrow>
      let conversation_uuid = strip cu;
          call_uuid = strip u;
          greeting = ''You've reached the '' @ format (get_hotline_description w) @ ''.''
      in
     (case random_choice rnd MUSIC_WHILE_YOU_WAIT of Inl e \<Rightarrow> (Inl e, st) | Inr track \<Rightarrow>
      let conversation_ncco =
            [(''action'', JStr ''conversation''),
             (''name'', JStr conversation_uuid),
             (''musicOnHoldUrl'', JList [JStr track]),
             (''endOnExit'', JBool False),
             (''startOnEnter'', JBool False)];
          recording = is_auto_recording w;
          greeting = (if recording then greeting @ '' This call is recorded.'' else greeting);
          conversation_ncco =
            (if recording
             then dict_update conversation_ncco
                    [(''record'', JBool True),
                     (''eventUrl'',
                      JList [opt_json (environ w ''ZAPIER_CATCH_HOOK_RECORDING_FINISHED_URL'')])]
             else conversation_ncco);
          ncco = JList [JObj [(''action'', JStr ''talk''), (''text'', JStr greeting)],
                        JObj conversation_ncco];
          c = get_nexmo_client w
      in
     (case get_phone_numbers w of Inl e \<Rightarrow> (Inl e, st) | Inr phone_numbers \<Rightarrow>
     (case create_calls w c hotline_number (host req) conversation_uuid call_uuid
             phone_numbers st of
        (Inl e, st') \<Rightarrow> (Inl e, st')
      | (Inr _, st') \<Rightarrow> (Inr (json_response ncco), st')))))))"

subsection \<open>\<^verbatim>\<open>answer_conference_call\<close>, GET /webhook/answer_conference_call/{..}/{..}/\<close>

text \<open>
  The \<^verbatim>\<open>try\<close> around \<^verbatim>\<open>send_speech\<close> catches \<^verbatim>\<open>nexmo.Error\<close> only: it prints two
  lines and goes on; any other exception leaves the handler. Without an exception the
  \<^verbatim>\<open>else\<close> branch prints the reply.
\<close>

definition answer_conference_call :: "world \<Rightarrow> request \<Rightarrow> state \<Rightarrow> (error + response) \<times> state" where
  "answer_conference_call w req st =
     (case query_get req ''to'' of Inl e \<Rightarrow> (Inl e, st) | Inr to_phone_number \<Rightarrow>
     (case match_info_get req ''origin_conversation_uuid'' of Inl e \<Rightarrow> (Inl e, st)
      | Inr origin_conversation_uuid \<Rightarrow>
     (case match_info_get req ''origin_call_uuid'' of Inl e \<Rightarrow> (Inl e, st)
      | Inr origin_call_uuid \<Rightarrow>
     (case get_phone_number_owner w to_phone_number of Inl e \<Rightarrow> (Inl e, st)
      | Inr phone_number_owner \<Rightarrow>
      let c = get_nexmo_client w;
          ncco = JList
            [JObj [(''action'', JStr ''talk''),
                   (''text'', JStr (''Hello '' @ format phone_number_owner @ '', connecting you to ''
                                     @ format (get_hotline_description w) @ ''.''))],
             JObj [(''action'', JStr ''conversation''),
                   (''name'', JStr origin_conversation_uuid),
                   (''startOnEnter'', JBool True),
                   (''endOnExit'', JBool True)]]
      in
     (case call_provider w c
             (SendSpeech origin_call_uuid (format phone_number_owner @ '' is joining this call.''))
             st of
        (Inr reply, st') \<Rightarrow>
          (Inr (json_response ncco), print (''Successfully notified caller. '' @ reply) st')
      | (Inl er, st') \<Rightarrow>
          (case er of
             NexmoError msg \<Rightarrow>
               (Inr (json_response ncco),
                print msg
                  (print (''error sending speech to '' @ origin_call_uuid @ '', owner is ''
                            @ format phone_number_owner) st'))
           | _ \<Rightarrow> (Inl er, st')))))))"

subsection \<open>\<^verbatim>\<open>inbound_sms\<close>, GET /webhook/inbound-sms/\<close>

definition staff_message :: "string \<Rightarrow> string \<Rightarrow> string \<Rightarrow> staff \<Rightarrow> dict" where
  "staff_message hotline_number from_number message phone_number_dict =
     [(''from'', JStr hotline_number),
      (''to'', JStr (phone phone_number_dict)),
      (''text'', JStr (from_number @ '': '' @ message))]"

definition ack_message :: "world \<Rightarrow> string \<Rightarrow> string \<Rightarrow> dict" where
  "ack_message w hotline_number from_number =
     [(''from'', JStr hotline_number),
      (''to'', JStr from_number),
      (''text'', JStr (''Thanks for contacting the '' @ format (get_hotline_description w)
         @ ''. Someone should follow-up shortly. Note: they may follow up from a different number.''))]"

fun send_messages ::
  "world \<Rightarrow> client \<Rightarrow> string \<Rightarrow> string \<Rightarrow> string \<Rightarrow> staff list \<Rightarrow> state
     \<Rightarrow> (error + unit) \<times> state" where
  "send_messages w c hotline_number from_number message [] st = (Inr (), st)"
| "send_messages w c hotline_number from_number message (phone_number_dict # rest) st =
     (case call_provider w c
             (SendMessage (staff_message hotline_number from_number message phone_number_dict))
             st of
        (Inl e, st') \<Rightarrow> (Inl e, st')
      | (Inr _, st') \<Rightarrow> send_messages w c hotline_number from_number message rest st')"

definition inbound_sms :: "world \<Rightarrow> request \<Rightarrow> state \<Rightarrow> (error + response) \<times> state" where
  "inbound_sms w req st =
     (case query_get req ''to'' of Inl e \<Rightarrow> (Inl e, st) | Inr hotline_number \<Rightarrow>
     (case query_get req ''msisdn'' of Inl e \<Rightarrow> (Inl e, st) | Inr from_number \<Rightarrow>
     (case query_get req ''text'' of Inl e \<Rightarrow> (Inl e, st) | Inr message \<Rightarrow>
      let c = get_nexmo_client w in
     (case get_phone_numbers w of Inl e \<Rightarrow> (Inl e, st) | Inr phone_numbers \<Rightarrow>
     (case send_messages w c hotline_number from_number message phone_numbers st of
        (Inl e, st') \<Rightarrow> (Inl e, st')
      | (Inr _, st') \<Rightarrow>
     (case call_provider w c (SendMessage (ack_message w hotline_number from_number)) st' of
        (Inl e, st'') \<Rightarrow> (Inl e, st'')
      | (Inr _, st'') \<Rightarrow>
          (Inr \<lparr>status = 204, content_type = None, body = NoBody\<rparr>, st'')))))))"

subsection \<open>\<^verbatim>\<open>proxy_recording\<close>, GET /recordings/\<close>

text \<open>
  The configured credentials are \<^verbatim>\<open>os.environ.get\<close> values, \<^verbatim>\<open>None\<close> when unset; the
  supplied ones are strings. \<^verbatim>\<open>!=\<close> between \<^verbatim>\<open>None\<close> and a string is true.
\<close>

definition proxy_recording :: "world \<Rightarrow> request \<Rightarrow> state \<Rightarrow> (error + response) \<times> state" where
  "proxy_recording w req st =
     (case query_get req ''recording_url'' of Inl e \<Rightarrow> (Inl e, st) | Inr recording_url \<Rightarrow>
      let api_key = environ w ''NEXMO_API_KEY'';
          api_secret = environ w ''NEXMO_API_SECRET''
      in
     (case query_get req ''api_key'' of Inl e \<Rightarrow> (Inl e, st) | Inr incoming_api_key \<Rightarrow>
     (case query_get req ''api_secret'' of Inl e \<Rightarrow> (Inl e, st) | Inr incoming_api_secret \<Rightarrow>
      if api_key \<noteq> Some incoming_api_key \<or> api_secret \<noteq> Some incoming_api_secret
      then (Inr \<lparr>status = 401, content_type = None, body = NoBody\<rparr>, st)
      else
        let c = get_nexmo_client w in
       (case call_provider w c (GetRecording recording_url) st of
          (Inl e, st') \<Rightarrow> (Inl e, st')
        | (Inr bytes, st') \<Rightarrow>
            (Inr \<lparr>status = 200, content_type = Some ''audio/mpeg'', body = BytesBody bytes\<rparr>,
             st')))))"

section \<open>Provider runs and example inputs\<close>

text \<open>
  \<open>accepts w c h qs\<close>: issued in this order after the requests \<open>h\<close>, none of the
  requests \<open>qs\<close> makes the provider raise.
\<close>

fun accepts :: "world \<Rightarrow> client \<Rightarrow> provider_request list \<Rightarrow> provider_request list \<Rightarrow> bool" where
  "accepts w c h [] = True"
| "accepts w c h (q # qs) =
     ((case nexmo w c h q of Inl _ \<Rightarrow> False | Inr _ \<Rightarrow> True) \<and> accepts w c (h @ [q]) qs)"

text \<open>
  The scenario of the specification: the directory of Ann (1111) and Bo (2222), the
  hotline 9999, a provider that answers every request with \<^verbatim>\<open>ok\<close>.
\<close>

definition example_directory :: "staff list" where
  "example_directory =
     [\<lparr>name = ''Ann'', phone = ''1111''\<rparr>, \<lparr>name = ''Bo'', phone = ''2222''\<rparr>]"

definition example_world :: "(string \<times> string) list \<Rightarrow> world" where
  "example_world extra =
     \<lparr>environ = map_of (extra @
         [(''PHONE_NUMBERS'',
           ''[{\"name\": \"Ann\", \"phone\": \"1111\"}, {\"name\": \"Bo\", \"phone\": \"2222\"}]''),
          (''HOTLINE_DESC'', ''CoC hotline'')]),
      json_loads = (\<lambda>s.
         if s = ''[{\"name\": \"Ann\", \"phone\": \"1111\"}, {\"name\": \"Bo\", \"phone\": \"2222\"}]''
         then Inr example_directory else Inl JSONDecodeError),
      nexmo = (\<lambda>c h q. Inr ''ok'')\<rparr>"

definition example_request :: "(string \<times> string) list \<Rightarrow> request" where
  "example_request params =
     \<lparr>query = map_of params,
      match_info = map_of [(''origin_conversation_uuid'', ''c1''), (''origin_call_uuid'', ''u1'')],
      host = ''hotline.example.org''\<rparr>"

definition initial_state :: state where
  "initial_state = \<lparr>sent = [], stdout = []\<rparr>"

text \<open>The same scenario with a provider that raises \<^verbatim>\<open>nexmo.Error\<close> on every request.\<close>

definition example_failing_world :: world where
  "example_failing_world =
     (example_world [])\<lparr>nexmo := (\<lambda>c h q. Inl (NexmoError ''Server error''))\<rparr>"

text \<open>The same scenario with recording switched on and a completion webhook configured.\<close>

definition example_recording_world :: world where
  "example_recording_world =
     example_world [(''AUTO_RECORD'', ''true''),
                    (''ZAPIER_CATCH_HOOK_RECORDING_FINISHED_URL'',
                     ''https://hooks.zapier.com/hooks/catch/1/'')]"

section \<open>Facts about the string methods\<close>

text \<open>
  A lower-case ASCII letter is the image under \<open>lower_char\<close> of itself and of its
  capital, and of nothing else.
\<close>

lemma lower_char_eq_iff:
  assumes "97 \<le> (of_char l :: nat)" "(of_char l :: nat) \<le> 122"
  shows "lower_char c = l \<longleftrightarrow> (c = l \<or> c = char_of (of_char l - 32 :: nat))"
proof -
  let ?n = "of_char c :: nat" and ?m = "of_char l :: nat"
  have n: "?n < 256" by simp
  have inj: "\<And>a b. (of_char a :: nat) = of_char b \<longleftrightarrow> a = b" by simp
  have co: "\<And>k::nat. k < 256 \<Longrightarrow> (of_char (char_of k) :: nat) = k" by simp
  have up: "c = char_of (?m - 32) \<longleftrightarrow> ?n = ?m - 32"
    using co[of "?m - 32"] inj[of c "char_of (?m - 32)"] assms by auto
  show ?thesis
  proof (cases "(65 \<le> ?n \<and> ?n \<le> 90) \<or> (192 \<le> ?n \<and> ?n \<le> 222 \<and> ?n \<noteq> 215)")
    case True
    then have lc: "lower_char c = char_of (?n + 32)"
      unfolding lower_char_def Let_def by (rule if_P)
    from True n have b: "?n + 32 < 256" by auto
    have "lower_char c = l \<longleftrightarrow> ?n + 32 = ?m"
      using co[OF b] inj[of "char_of (?n + 32)" l] lc by auto
    moreover have "c = l \<longleftrightarrow> ?n = ?m" using inj by auto
    ultimately show ?thesis using True assms up by auto
  next
    case False
    then have lc: "lower_char c = c"
      unfolding lower_char_def Let_def by (rule if_not_P)
    have "c = l \<longleftrightarrow> ?n = ?m" using inj by auto
    then show ?thesis using False assms lc up by auto
  qed
qed

lemma lower_char_t: "lower_char c = CHR ''t'' \<longleftrightarrow> c = CHR ''t'' \<or> c = CHR ''T''"
proof -
  have "char_of (of_char CHR ''t'' - 32 :: nat) = CHR ''T''" by code_simp
  then show ?thesis using lower_char_eq_iff[of "CHR ''t''" c] by simp
qed

lemma lower_char_r: "lower_char c = CHR ''r'' \<longleftrightarrow> c = CHR ''r'' \<or> c = CHR ''R''"
proof -
  have "char_of (of_char CHR ''r'' - 32 :: nat) = CHR ''R''" by code_simp
  then show ?thesis using lower_char_eq_iff[of "CHR ''r''" c] by simp
qed

lemma lower_char_u: "lower_char c = CHR ''u'' \<longleftrightarrow> c = CHR ''u'' \<or> c = CHR ''U''"
proof -
  have "char_of (of_char CHR ''u'' - 32 :: nat) = CHR ''U''" by code_simp
  then show ?thesis using lower_char_eq_iff[of "CHR ''u''" c] by simp
qed

lemma lower_char_e: "lower_char c = CHR ''e'' \<longleftrightarrow> c = CHR ''e'' \<or> c = CHR ''E''"
proof -
  have "char_of (of_char CHR ''e'' - 32 :: nat) = CHR ''E''" by code_simp
  then show ?thesis using lower_char_eq_iff[of "CHR ''e''" c] by simp
qed

lemma lower_true_iff:
  "lower s = ''true'' \<longleftrightarrow>
     (\<exists>a b c d. s = [a, b, c, d] \<and> a \<in> {CHR ''t'', CHR ''T''} \<and> b \<in> {CHR ''r'', CHR ''R''}
        \<and> c \<in> {CHR ''u'', CHR ''U''} \<and> d \<in> {CHR ''e'', CHR ''E''})"
proof -
  have "lower s = ''true'' \<longleftrightarrow>
     (\<exists>a b c d. s = [a, b, c, d] \<and> lower_char a = CHR ''t'' \<and> lower_char b = CHR ''r''
        \<and> lower_char c = CHR ''u'' \<and> lower_char d = CHR ''e'')"
    unfolding lower_def by (auto simp: map_eq_Cons_conv)
  then show ?thesis
    by (simp add: lower_char_t lower_char_r lower_char_u lower_char_e)
qed

lemma lower_false: "lower ''false'' \<noteq> ''true''"
  by (simp add: lower_def)

lemma example_environ_simps:
  "environ (example_world extra) k =
     map_of (extra @ [(''PHONE_NUMBERS'',
           ''[{\"name\": \"Ann\", \"phone\": \"1111\"}, {\"name\": \"Bo\", \"phone\": \"2222\"}]''),
          (''HOTLINE_DESC'', ''CoC hotline'')]) k"
  by (simp add: example_world_def)


section \<open>Reading a request\<close>

lemma query_get_Some: "query req k = Some v \<Longrightarrow> query_get req k = Inr v"
  by (simp add: query_get_def)

lemma query_get_None: "query req k = None \<Longrightarrow> query_get req k = Inl (KeyError k)"
  by (simp add: query_get_def)

lemma example_query: "query (example_request params) k = map_of params k"
  by (simp add: example_request_def)

lemma match_info_get_Some: "match_info req k = Some v \<Longrightarrow> match_info_get req k = Inr v"
  by (simp add: match_info_get_def)

lemma example_match_info:
  "match_info (example_request params) ''origin_conversation_uuid'' = Some ''c1''"
  "match_info (example_request params) ''origin_call_uuid'' = Some ''u1''"
  by (simp_all add: example_request_def)

lemma owner_loop_find:
  "owner_loop phone_numbers phone_number
     = map_option name (find (\<lambda>p. phone p = phone_number) phone_numbers)"
  by (induction phone_numbers) simp_all

lemma format_map_option_name:
  "format (map_option name found) = (case found of None \<Rightarrow> ''None'' | Some p \<Rightarrow> name p)"
  by (cases found) simp_all

section \<open>Runs of the provider\<close>

lemma accepts_append:
  "accepts w c h (qs @ rs) \<longleftrightarrow> accepts w c h qs \<and> accepts w c (h @ qs) rs"
  by (induction qs arbitrary: h) auto

lemma example_accepts: "accepts (example_world extra) c h qs"
  by (induction qs arbitrary: h) (simp_all add: example_world_def)

lemma example_get_phone_numbers:
  "map_of extra ''PHONE_NUMBERS'' = None \<Longrightarrow>
   get_phone_numbers (example_world extra) = Inr example_directory"
  by (simp add: get_phone_numbers_def example_world_def map_add_def)

lemma send_messages_accepts:
  "accepts w c (sent st)
     (map (\<lambda>p. SendMessage (staff_message hotline_number from_number message p)) phone_numbers)
   \<Longrightarrow> send_messages w c hotline_number from_number message phone_numbers st =
     (Inr (), st\<lparr>sent := sent st @
        map (\<lambda>p. SendMessage (staff_message hotline_number from_number message p))
          phone_numbers\<rparr>)"
proof (induction phone_numbers arbitrary: st)
  case Nil
  then show ?case by simp
next
  case (Cons p ps)
  let ?q = "SendMessage (staff_message hotline_number from_number message p)"
  from Cons.prems obtain r where r: "nexmo w c (sent st) ?q = Inr r"
    by (auto split: sum.splits)
  from Cons.prems have "accepts w c (sent (st\<lparr>sent := sent st @ [?q]\<rparr>))
     (map (\<lambda>p. SendMessage (staff_message hotline_number from_number message p)) ps)"
    by simp
  from Cons.IH[OF this] r show ?case
    by (simp add: call_provider_def)
qed

lemma example_failing_get_phone_numbers:
  "get_phone_numbers example_failing_world = Inr example_directory"
  by (simp add: get_phone_numbers_def example_failing_world_def example_world_def)

section \<open>The run of \<^verbatim>\<open>answer_call\<close> when nothing raises\<close>

lemma create_calls_accepts:
  "accepts w c (sent st)
     (map (\<lambda>p. CreateCall (create_call_params hotline_number h conversation_uuid call_uuid p))
        phone_numbers)
   \<Longrightarrow> create_calls w c hotline_number h conversation_uuid call_uuid phone_numbers st =
     (Inr (), st\<lparr>sent := sent st @
        map (\<lambda>p. CreateCall (create_call_params hotline_number h conversation_uuid call_uuid p))
          phone_numbers\<rparr>)"
proof (induction phone_numbers arbitrary: st)
  case Nil
  then show ?case by simp
next
  case (Cons p ps)
  let ?q = "CreateCall (create_call_params hotline_number h conversation_uuid call_uuid p)"
  from Cons.prems obtain r where r: "nexmo w c (sent st) ?q = Inr r"
    by (auto split: sum.splits)
  from Cons.prems have "accepts w c (sent (st\<lparr>sent := sent st @ [?q]\<rparr>))
     (map (\<lambda>p. CreateCall (create_call_params hotline_number h conversation_uuid call_uuid p)) ps)"
    by simp
  from Cons.IH[OF this] r show ?case
    by (simp add: call_provider_def)
qed

lemma random_choice_music:
  "random_choice rnd MUSIC_WHILE_YOU_WAIT = Inr (MUSIC_WHILE_YOU_WAIT ! (rnd mod 5))"
  by (simp add: random_choice_def MUSIC_WHILE_YOU_WAIT_def)

lemma music_choices: "range (\<lambda>rnd. MUSIC_WHILE_YOU_WAIT ! (rnd mod 5)) = set MUSIC_WHILE_YOU_WAIT"
proof -
  have len: "length MUSIC_WHILE_YOU_WAIT = 5"
    by (simp add: MUSIC_WHILE_YOU_WAIT_def)
  show ?thesis
  proof (intro set_eqI iffI)
    fix x assume "x \<in> range (\<lambda>rnd. MUSIC_WHILE_YOU_WAIT ! (rnd mod 5))"
    then obtain rnd where "x = MUSIC_WHILE_YOU_WAIT ! (rnd mod 5)" by blast
    moreover have "rnd mod 5 < length MUSIC_WHILE_YOU_WAIT" using len by simp
    ultimately show "x \<in> set MUSIC_WHILE_YOU_WAIT" by simp
  next
    fix x assume "x \<in> set MUSIC_WHILE_YOU_WAIT"
    then obtain i where i: "i < 5" "x = MUSIC_WHILE_YOU_WAIT ! i"
      using len by (auto simp: in_set_conv_nth)
    then have "x = MUSIC_WHILE_YOU_WAIT ! (i mod 5)" by simp
    then show "x \<in> range (\<lambda>rnd. MUSIC_WHILE_YOU_WAIT ! (rnd mod 5))" by blast
  qed
qed

lemma answer_call_run:
  assumes "query req ''to'' = Some hotline_number"
      and "query req ''conversation_uuid'' = Some cu"
      and "query req ''uuid'' = Some u"
      and "get_phone_numbers w = Inr phone_numbers"
      and "accepts w (get_nexmo_client w) (sent st)
             (map (\<lambda>p. CreateCall
                     (create_call_params hotline_number (host req) (strip cu) (strip u) p))
                phone_numbers)"
  shows "answer_call w rnd req st =
     (Inr (json_response (JList
        [JObj [(''action'', JStr ''talk''),
               (''text'', JStr (''You've reached the '' @ format (environ w ''HOTLINE_DESC'')
                   @ ''.'' @ (if is_auto_recording w then '' This call is recorded.'' else [])))],
         JObj ([(''action'', JStr ''conversation''),
                (''name'', JStr (strip cu)),
                (''musicOnHoldUrl'', JList [JStr (MUSIC_WHILE_YOU_WAIT ! (rnd mod 5))]),
                (''endOnExit'', JBool False),
                (''startOnEnter'', JBool False)]
               @ (if is_auto_recording w
                  then [(''record'', JBool True),
                        (''eventUrl'',
                         JList [opt_json (environ w ''ZAPIER_CATCH_HOOK_RECORDING_FINISHED_URL'')])]
                  else []))])),
      st\<lparr>sent := sent st @
         map (\<lambda>p. CreateCall
                (create_call_params hotline_number (host req) (strip cu) (strip u) p))
           phone_numbers\<rparr>)"
  using assms(1-4) create_calls_accepts[OF assms(5)]
  by (simp add: answer_call_def query_get_Some random_choice_music get_hotline_description_def
        dict_update_def Let_def)

lemma strip_example: "strip '' c1'' = ''c1''" "strip ''u1'' = ''u1''"
  by (simp_all add: strip_def lstrip_def rstrip_def isspace_def)

lemma example_host: "host (example_request params) = ''hotline.example.org''"
  by (simp add: example_request_def)

lemma example_not_recording: "\<not> is_auto_recording (example_world [])"
  using lower_false by (simp add: is_auto_recording_def example_world_def)

lemma example_recording_world_facts:
  "get_phone_numbers example_recording_world = Inr example_directory"
  "is_auto_recording example_recording_world"
  "environ example_recording_world ''HOTLINE_DESC'' = Some ''CoC hotline''"
  "environ example_recording_world ''ZAPIER_CATCH_HOOK_RECORDING_FINISHED_URL''
     = Some ''https://hooks.zapier.com/hooks/catch/1/''"
  "accepts example_recording_world c h qs"
  by (simp_all add: example_recording_world_def example_get_phone_numbers example_accepts
        is_auto_recording_def example_environ_simps lower_true_iff)

lemma example_call_query:
  "query (example_request [(''to'', ''9999''), (''conversation_uuid'', cu), (''uuid'', ''u1'')])
     ''to'' = Some ''9999''"
  "query (example_request [(''to'', ''9999''), (''conversation_uuid'', cu), (''uuid'', ''u1'')])
     ''conversation_uuid'' = Some cu"
  "query (example_request [(''to'', ''9999''), (''conversation_uuid'', cu), (''uuid'', ''u1'')])
     ''uuid'' = Some ''u1''"
  by (simp_all add: example_query)

lemma strip_c1: "strip ''c1'' = ''c1''"
  by (simp add: strip_def lstrip_def rstrip_def isspace_def)

section \<open>The auto-record flag\<close>

text \<open>
  Claim C10. The flag is read without regard to case: \<open>is_auto_recording\<close> holds exactly
  when the lower-cased value of \<^verbatim>\<open>AUTO_RECORD\<close>, taken as \<^verbatim>\<open>false\<close> when the variable
  is not set, is \<^verbatim>\<open>true\<close>. So an unset variable disables recording, and a set one
  enables it exactly when it is one of the sixteen spellings of \<^verbatim>\<open>true\<close> in upper and
  lower case, \<^verbatim>\<open>TRUE\<close> and \<^verbatim>\<open>True\<close> among them.
\<close>

theorem is_auto_recording_case_insensitive:
  "(is_auto_recording w \<longleftrightarrow>
      lower (case environ w ''AUTO_RECORD'' of None \<Rightarrow> ''false'' | Some s \<Rightarrow> s) = ''true'')
   \<and> (environ w ''AUTO_RECORD'' = None \<longrightarrow> \<not> is_auto_recording w)
   \<and> (\<forall>s. environ w ''AUTO_RECORD'' = Some s \<longrightarrow>
        (is_auto_recording w \<longleftrightarrow>
           (\<exists>a b c d. s = [a, b, c, d] \<and> a \<in> {CHR ''t'', CHR ''T''} \<and> b \<in> {CHR ''r'', CHR ''R''}
              \<and> c \<in> {CHR ''u'', CHR ''U''} \<and> d \<in> {CHR ''e'', CHR ''E''})))"
proof (intro conjI allI impI)
  show "is_auto_recording w \<longleftrightarrow>
      lower (case environ w ''AUTO_RECORD'' of None \<Rightarrow> ''false'' | Some s \<Rightarrow> s) = ''true''"
    by (simp add: is_auto_recording_def)
next
  assume "environ w ''AUTO_RECORD'' = None"
  then show "\<not> is_auto_recording w"
    using lower_false by (simp add: is_auto_recording_def)
next
  fix s assume "environ w ''AUTO_RECORD'' = Some s"
  then have "is_auto_recording w \<longleftrightarrow> lower s = ''true''"
    by (simp add: is_auto_recording_def)
  then show "is_auto_recording w \<longleftrightarrow>
           (\<exists>a b c d. s = [a, b, c, d] \<and> a \<in> {CHR ''t'', CHR ''T''} \<and> b \<in> {CHR ''r'', CHR ''R''}
              \<and> c \<in> {CHR ''u'', CHR ''U''} \<and> d \<in> {CHR ''e'', CHR ''E''})"
    by (simp only: lower_true_iff)
qed

theorem is_auto_recording_case_insensitive_witness:
  "environ (example_world [(''AUTO_RECORD'', ''TRUE'')]) ''AUTO_RECORD'' = Some ''TRUE''
   \<and> is_auto_recording (example_world [(''AUTO_RECORD'', ''TRUE'')])
   \<and> environ (example_world [(''AUTO_RECORD'', ''True'')]) ''AUTO_RECORD'' = Some ''True''
   \<and> is_auto_recording (example_world [(''AUTO_RECORD'', ''True'')])
   \<and> environ (example_world [(''AUTO_RECORD'', ''yes'')]) ''AUTO_RECORD'' = Some ''yes''
   \<and> \<not> is_auto_recording (example_world [(''AUTO_RECORD'', ''yes'')])
   \<and> environ (example_world []) ''AUTO_RECORD'' = None
   \<and> \<not> is_auto_recording (example_world [])"
proof -
  have l: "lower ''TRUE'' = ''true''" "lower ''True'' = ''true''"
    by code_simp+
  have n: "lower ''yes'' \<noteq> ''true''"
    by (simp add: lower_def)
  show ?thesis
    using is_auto_recording_case_insensitive [of "example_world [(''AUTO_RECORD'', ''TRUE'')]"]
          is_auto_recording_case_insensitive [of "example_world [(''AUTO_RECORD'', ''True'')]"]
          is_auto_recording_case_insensitive [of "example_world [(''AUTO_RECORD'', ''yes'')]"]
          is_auto_recording_case_insensitive [of "example_world []"]
          l n lower_false
    by (simp add: example_environ_simps)
qed

section \<open>Missing query parameters of \<^verbatim>\<open>answer_call\<close>\<close>

text \<open>
  Claim C8. When \<^verbatim>\<open>to\<close>, \<^verbatim>\<open>conversation_uuid\<close> or \<^verbatim>\<open>uuid\<close> is absent from the
  query, \<open>answer_call\<close> ends with the \<open>KeyError\<close> of the first absent one (the missing
  parameter error of the specification): no response is produced, and the state is the
  one it started in, so no call has been requested from the provider.
\<close>

theorem answer_call_missing_parameter:
  assumes "query req ''to'' = None \<or> query req ''conversation_uuid'' = None
             \<or> query req ''uuid'' = None"
  shows "answer_call w rnd req st =
           (Inl (KeyError (if query req ''to'' = None then ''to''
                           else if query req ''conversation_uuid'' = None
                                then ''conversation_uuid'' else ''uuid'')), st)"
proof (cases "query req ''to''")
  case None
  then show ?thesis by (simp add: answer_call_def query_get_None)
next
  case to: (Some hotline_number)
  show ?thesis
  proof (cases "query req ''conversation_uuid''")
    case None
    with to show ?thesis by (simp add: answer_call_def query_get_None query_get_Some)
  next
    case cu: (Some c)
    with to assms have "query req ''uuid'' = None" by simp
    with to cu show ?thesis by (simp add: answer_call_def query_get_None query_get_Some)
  qed
qed


theorem answer_call_missing_parameter_witness:
  "(query (example_request [(''to'', ''9999''), (''uuid'', ''u1'')]) ''to'' = None
    \<or> query (example_request [(''to'', ''9999''), (''uuid'', ''u1'')]) ''conversation_uuid'' = None
    \<or> query (example_request [(''to'', ''9999''), (''uuid'', ''u1'')]) ''uuid'' = None)
   \<and> answer_call (example_world []) 0 (example_request [(''to'', ''9999''), (''uuid'', ''u1'')])
         initial_state
       = (Inl (KeyError ''conversation_uuid''), initial_state)"
  using answer_call_missing_parameter
          [of "example_request [(''to'', ''9999''), (''uuid'', ''u1'')]" "example_world []" 0
              initial_state]
  by (simp add: example_query)

section \<open>The credential check of \<^verbatim>\<open>proxy_recording\<close>\<close>

text \<open>
  Claim C4. For a request with a recording URL, an API key and an API secret: when the
  supplied key or the supplied secret is not the configured one, \<open>proxy_recording\<close>
  answers 401 without a body and leaves the state as it was, so nothing is fetched; when
  both are the configured ones, it requests the recording at the supplied URL from the
  provider, and the bytes the provider returns come back with status 200 and the content
  type \<^verbatim>\<open>audio/mpeg\<close>.
\<close>

theorem proxy_recording_credentials:
  assumes "query req ''recording_url'' = Some recording_url"
      and "query req ''api_key'' = Some incoming_api_key"
      and "query req ''api_secret'' = Some incoming_api_secret"
  shows "(environ w ''NEXMO_API_KEY'' \<noteq> Some incoming_api_key
            \<or> environ w ''NEXMO_API_SECRET'' \<noteq> Some incoming_api_secret \<longrightarrow>
          proxy_recording w req st
            = (Inr \<lparr>status = 401, content_type = None, body = NoBody\<rparr>, st))
       \<and> (environ w ''NEXMO_API_KEY'' = Some incoming_api_key
            \<and> environ w ''NEXMO_API_SECRET'' = Some incoming_api_secret \<longrightarrow>
          sent (snd (proxy_recording w req st)) = sent st @ [GetRecording recording_url]
          \<and> (\<forall>bytes. nexmo w (get_nexmo_client w) (sent st) (GetRecording recording_url) = Inr bytes
                \<longrightarrow> fst (proxy_recording w req st)
                      = Inr \<lparr>status = 200, content_type = Some ''audio/mpeg'',
                             body = BytesBody bytes\<rparr>))"
  using assms
  by (auto simp: proxy_recording_def query_get_Some call_provider_def Let_def
           split: sum.splits)


theorem proxy_recording_credentials_witness:
  "query (example_request [(''recording_url'', ''https://api.nexmo.com/v1/files/r1''),
                           (''api_key'', ''key''), (''api_secret'', ''wrong'')]) ''api_secret''
     = Some ''wrong''
   \<and> environ (example_world [(''NEXMO_API_KEY'', ''key''), (''NEXMO_API_SECRET'', ''secret'')])
        ''NEXMO_API_SECRET'' \<noteq> Some ''wrong''
   \<and> proxy_recording
        (example_world [(''NEXMO_API_KEY'', ''key''), (''NEXMO_API_SECRET'', ''secret'')])
        (example_request [(''recording_url'', ''https://api.nexmo.com/v1/files/r1''),
                          (''api_key'', ''key''), (''api_secret'', ''wrong'')])
        initial_state
      = (Inr \<lparr>status = 401, content_type = None, body = NoBody\<rparr>, initial_state)
   \<and> environ (example_world [(''NEXMO_API_KEY'', ''key''), (''NEXMO_API_SECRET'', ''secret'')])
        ''NEXMO_API_SECRET'' = Some ''secret''
   \<and> sent (snd (proxy_recording
        (example_world [(''NEXMO_API_KEY'', ''key''), (''NEXMO_API_SECRET'', ''secret'')])
        (example_request [(''recording_url'', ''https://api.nexmo.com/v1/files/r1''),
                          (''api_key'', ''key''), (''api_secret'', ''secret'')])
        initial_state))
      = [GetRecording ''https://api.nexmo.com/v1/files/r1'']
   \<and> fst (proxy_recording
        (example_world [(''NEXMO_API_KEY'', ''key''), (''NEXMO_API_SECRET'', ''secret'')])
        (example_request [(''recording_url'', ''https://api.nexmo.com/v1/files/r1''),
                          (''api_key'', ''key''), (''api_secret'', ''secret'')])
        initial_state)
      = Inr \<lparr>status = 200, content_type = Some ''audio/mpeg'', body = BytesBody ''ok''\<rparr>"
  using proxy_recording_credentials
          [of "example_request [(''recording_url'', ''https://api.nexmo.com/v1/files/r1''),
                                (''api_key'', ''key''), (''api_secret'', ''wrong'')]"
              "''https://api.nexmo.com/v1/files/r1''" "''key''" "''wrong''"
              "example_world [(''NEXMO_API_KEY'', ''key''), (''NEXMO_API_SECRET'', ''secret'')]"
              initial_state]
        proxy_recording_credentials
          [of "example_request [(''recording_url'', ''https://api.nexmo.com/v1/files/r1''),
                                (''api_key'', ''key''), (''api_secret'', ''secret'')]"
              "''https://api.nexmo.com/v1/files/r1''" "''key''" "''secret''"
              "example_world [(''NEXMO_API_KEY'', ''key''), (''NEXMO_API_SECRET'', ''secret'')]"
              initial_state]
  by (simp add: example_query example_world_def initial_state_def)

text \<open>
  Claim C9, as stated, at a request that supplies \<^verbatim>\<open>api_key\<close> and \<^verbatim>\<open>api_secret\<close> but
  no \<^verbatim>\<open>recording_url\<close>, with no API key configured: the handler reads
  \<^verbatim>\<open>recording_url\<close> first and ends with its \<open>KeyError\<close>, not with a 401 response.
\<close>

theorem proxy_recording_unset_counterexample:
  "environ (example_world []) ''NEXMO_API_KEY'' = None
   \<and> query (example_request [(''api_key'', ''key''), (''api_secret'', ''secret'')]) ''api_key''
       = Some ''key''
   \<and> query (example_request [(''api_key'', ''key''), (''api_secret'', ''secret'')]) ''api_secret''
       = Some ''secret''
   \<and> proxy_recording (example_world [])
        (example_request [(''api_key'', ''key''), (''api_secret'', ''secret'')]) initial_state
       = (Inl (KeyError ''recording_url''), initial_state)
   \<and> fst (proxy_recording (example_world [])
        (example_request [(''api_key'', ''key''), (''api_secret'', ''secret'')]) initial_state)
       \<noteq> Inr \<lparr>status = 401, content_type = None, body = NoBody\<rparr>"
  by (simp add: proxy_recording_def query_get_def example_query example_world_def)

text \<open>
  Claim C9, amended. When the configured API key or API secret is not set,
  \<open>proxy_recording\<close> answers 401 to every request that supplies \<^verbatim>\<open>recording_url\<close>,
  \<^verbatim>\<open>api_key\<close> and \<^verbatim>\<open>api_secret\<close>; and whatever the request, it leaves the state as it
  was and any response it gives is that 401, so the recording is never fetched or
  returned.
\<close>

theorem proxy_recording_unset_credentials:
  assumes "environ w ''NEXMO_API_KEY'' = None \<or> environ w ''NEXMO_API_SECRET'' = None"
  shows "(query req ''recording_url'' \<noteq> None \<and> query req ''api_key'' \<noteq> None
            \<and> query req ''api_secret'' \<noteq> None \<longrightarrow>
            proxy_recording w req st
              = (Inr \<lparr>status = 401, content_type = None, body = NoBody\<rparr>, st))
       \<and> snd (proxy_recording w req st) = st
       \<and> (case fst (proxy_recording w req st) of
             Inl e \<Rightarrow> True
           | Inr r \<Rightarrow> r = \<lparr>status = 401, content_type = None, body = NoBody\<rparr>)"
  using assms
  by (auto simp: proxy_recording_def query_get_def Let_def split: option.splits)


theorem proxy_recording_unset_credentials_witness:
  "(environ (example_world [(''NEXMO_API_KEY'', ''key'')]) ''NEXMO_API_KEY'' = None
    \<or> environ (example_world [(''NEXMO_API_KEY'', ''key'')]) ''NEXMO_API_SECRET'' = None)
   \<and> query (example_request [(''recording_url'', ''https://api.nexmo.com/v1/files/r1''),
                             (''api_key'', ''key''), (''api_secret'', ''secret'')])
        ''recording_url'' \<noteq> None
   \<and> proxy_recording (example_world [(''NEXMO_API_KEY'', ''key'')])
        (example_request [(''recording_url'', ''https://api.nexmo.com/v1/files/r1''),
                          (''api_key'', ''key''), (''api_secret'', ''secret'')])
        initial_state
      = (Inr \<lparr>status = 401, content_type = None, body = NoBody\<rparr>, initial_state)"
proof -
  have unset: "environ (example_world [(''NEXMO_API_KEY'', ''key'')]) ''NEXMO_API_KEY'' = None
    \<or> environ (example_world [(''NEXMO_API_KEY'', ''key'')]) ''NEXMO_API_SECRET'' = None"
    by (simp add: example_world_def)
  show ?thesis
    using unset
          proxy_recording_unset_credentials
            [OF unset,
             of "example_request [(''recording_url'', ''https://api.nexmo.com/v1/files/r1''),
                                  (''api_key'', ''key''), (''api_secret'', ''secret'')]"
                initial_state]
    by (simp add: example_query)
qed

section \<open>Forwarding an inbound SMS\<close>

text \<open>
  Claim C5. For a request with \<^verbatim>\<open>to\<close>, \<^verbatim>\<open>msisdn\<close> and \<^verbatim>\<open>text\<close>, a directory of N
  entries, and a provider that raises on none of the sends: \<open>inbound_sms\<close> issues
  exactly N + 1 \<^verbatim>\<open>send_message\<close> requests. The first N go, in directory order, from the
  hotline number to each entry's phone with the text \<^verbatim>\<open><sender>: <message>\<close>; the last
  is the acknowledgment from the hotline number to the sender. The handler then answers
  204 without a body.
\<close>

theorem inbound_sms_notifies_staff_and_sender:
  assumes "query req ''to'' = Some hotline_number"
      and "query req ''msisdn'' = Some from_number"
      and "query req ''text'' = Some message"
      and "get_phone_numbers w = Inr phone_numbers"
      and "accepts w (get_nexmo_client w) (sent st)
             (map (\<lambda>p. SendMessage
                      [(''from'', JStr hotline_number), (''to'', JStr (phone p)),
                       (''text'', JStr (from_number @ '': '' @ message))]) phone_numbers
              @ [SendMessage [(''from'', JStr hotline_number), (''to'', JStr from_number),
                  (''text'', JStr (''Thanks for contacting the ''
                     @ format (environ w ''HOTLINE_DESC'')
                     @ ''. Someone should follow-up shortly. Note: they may follow up from a different number.''))]])"
  shows "inbound_sms w req st =
           (Inr \<lparr>status = 204, content_type = None, body = NoBody\<rparr>,
            st\<lparr>sent := sent st
               @ map (\<lambda>p. SendMessage
                        [(''from'', JStr hotline_number), (''to'', JStr (phone p)),
                         (''text'', JStr (from_number @ '': '' @ message))]) phone_numbers
               @ [SendMessage [(''from'', JStr hotline_number), (''to'', JStr from_number),
                  (''text'', JStr (''Thanks for contacting the ''
                     @ format (environ w ''HOTLINE_DESC'')
                     @ ''. Someone should follow-up shortly. Note: they may follow up from a different number.''))]]\<rparr>)
         \<and> length (sent (snd (inbound_sms w req st)))
             = length (sent st) + length phone_numbers + 1"
proof -
  let ?staff = "map (\<lambda>p. SendMessage (staff_message hotline_number from_number message p))
                  phone_numbers"
  let ?ack = "SendMessage (ack_message w hotline_number from_number)"
  let ?c = "get_nexmo_client w"
  have same: "map (\<lambda>p. SendMessage
                      [(''from'', JStr hotline_number), (''to'', JStr (phone p)),
                       (''text'', JStr (from_number @ '': '' @ message))]) phone_numbers = ?staff"
    by (simp add: staff_message_def)
  have ack: "SendMessage [(''from'', JStr hotline_number), (''to'', JStr from_number),
                  (''text'', JStr (''Thanks for contacting the ''
                     @ format (environ w ''HOTLINE_DESC'')
                     @ ''. Someone should follow-up shortly. Note: they may follow up from a different number.''))] = ?ack"
    by (simp add: ack_message_def get_hotline_description_def)
  from assms(5) have a1: "accepts w ?c (sent st) ?staff"
    and a2: "accepts w ?c (sent st @ ?staff) [?ack]"
    unfolding same ack accepts_append by simp_all
  from a2 obtain r where r: "nexmo w ?c (sent st @ ?staff) ?ack = Inr r"
    by (auto split: sum.splits)
  have run: "inbound_sms w req st =
           (Inr \<lparr>status = 204, content_type = None, body = NoBody\<rparr>,
            st\<lparr>sent := sent st @ ?staff @ [?ack]\<rparr>)"
    using assms(1-4) send_messages_accepts[OF a1] r
    by (simp add: inbound_sms_def query_get_Some call_provider_def)
  show ?thesis
    unfolding same ack using run by simp
qed

theorem inbound_sms_notifies_staff_and_sender_witness:
  "get_phone_numbers (example_world []) = Inr example_directory
   \<and> length example_directory = 2
   \<and> inbound_sms (example_world [])
     (example_request [(''to'', ''9999''), (''msisdn'', ''5555''), (''text'', ''help'')])
     initial_state
   = (Inr \<lparr>status = 204, content_type = None, body = NoBody\<rparr>,
      \<lparr>sent =
         [SendMessage [(''from'', JStr ''9999''), (''to'', JStr ''1111''),
                       (''text'', JStr ''5555: help'')],
          SendMessage [(''from'', JStr ''9999''), (''to'', JStr ''2222''),
                       (''text'', JStr ''5555: help'')],
          SendMessage [(''from'', JStr ''9999''), (''to'', JStr ''5555''),
                       (''text'', JStr ''Thanks for contacting the CoC hotline. Someone should follow-up shortly. Note: they may follow up from a different number.'')]],
       stdout = []\<rparr>)"
proof -
  have dir: "get_phone_numbers (example_world []) = Inr example_directory"
    by (simp add: example_get_phone_numbers)
  have desc: "environ (example_world []) ''HOTLINE_DESC'' = Some ''CoC hotline''"
    by (simp add: example_world_def)
  show ?thesis
    using inbound_sms_notifies_staff_and_sender
            [of "example_request [(''to'', ''9999''), (''msisdn'', ''5555''), (''text'', ''help'')]"
                "''9999''" "''5555''" "''help''" "example_world []" example_directory
                initial_state,
             OF _ _ _ dir example_accepts]
          dir
    by (simp add: example_query example_directory_def initial_state_def desc)
qed

section \<open>A staff member joins the conference\<close>

text \<open>
  Claim C6. For a request with \<^verbatim>\<open>to\<close> and both path parameters, and a directory that
  loads: \<open>answer_conference_call\<close> returns the same two instructions whether
  \<^verbatim>\<open>send_speech\<close> returns or raises \<^verbatim>\<open>nexmo.Error\<close>: a talk action greeting the owner
  found for \<^verbatim>\<open>to\<close> and naming the hotline description, and a conversation action
  joining the origin conversation with \<^verbatim>\<open>startOnEnter\<close> and \<^verbatim>\<open>endOnExit\<close> true. The
  two runs differ only in what is printed: the reply in the first, and in the second a
  line naming the call and the owner followed by the error.
\<close>

theorem answer_conference_call_suppresses_provider_error:
  assumes "query req ''to'' = Some to_phone_number"
      and "match_info req ''origin_conversation_uuid'' = Some origin_conversation_uuid"
      and "match_info req ''origin_call_uuid'' = Some origin_call_uuid"
      and "get_phone_numbers w = Inr phone_numbers"
  shows "let owner = format (owner_loop phone_numbers to_phone_number);
             speech = SendSpeech origin_call_uuid (owner @ '' is joining this call.'');
             outcome = nexmo w (get_nexmo_client w) (sent st) speech;
             instructions = json_response (JList
               [JObj [(''action'', JStr ''talk''),
                      (''text'', JStr (''Hello '' @ owner @ '', connecting you to ''
                                        @ format (environ w ''HOTLINE_DESC'') @ ''.''))],
                JObj [(''action'', JStr ''conversation''),
                      (''name'', JStr origin_conversation_uuid),
                      (''startOnEnter'', JBool True),
                      (''endOnExit'', JBool True)]])
         in (outcome = Inr reply \<longrightarrow>
               answer_conference_call w req st =
                 (Inr instructions,
                  st\<lparr>sent := sent st @ [speech],
                     stdout := stdout st @ [''Successfully notified caller. '' @ reply]\<rparr>))
          \<and> (outcome = Inl (NexmoError msg) \<longrightarrow>
               answer_conference_call w req st =
                 (Inr instructions,
                  st\<lparr>sent := sent st @ [speech],
                     stdout := stdout st
                       @ [''error sending speech to '' @ origin_call_uuid @ '', owner is '' @ owner,
                          msg]\<rparr>))"
  using assms
  by (simp add: answer_conference_call_def query_get_Some match_info_get_Some
        get_phone_number_owner_def get_hotline_description_def call_provider_def print_def
        Let_def)

theorem answer_conference_call_suppresses_provider_error_witness:
  "answer_conference_call (example_world []) (example_request [(''to'', ''2222'')]) initial_state
     = (Inr (json_response (JList
          [JObj [(''action'', JStr ''talk''),
                 (''text'', JStr ''Hello Bo, connecting you to CoC hotline.'')],
           JObj [(''action'', JStr ''conversation''), (''name'', JStr ''c1''),
                 (''startOnEnter'', JBool True), (''endOnExit'', JBool True)]])),
        \<lparr>sent = [SendSpeech ''u1'' ''Bo is joining this call.''],
         stdout = [''Successfully notified caller. ok'']\<rparr>)
   \<and> answer_conference_call example_failing_world (example_request [(''to'', ''2222'')])
       initial_state
     = (Inr (json_response (JList
          [JObj [(''action'', JStr ''talk''),
                 (''text'', JStr ''Hello Bo, connecting you to CoC hotline.'')],
           JObj [(''action'', JStr ''conversation''), (''name'', JStr ''c1''),
                 (''startOnEnter'', JBool True), (''endOnExit'', JBool True)]])),
        \<lparr>sent = [SendSpeech ''u1'' ''Bo is joining this call.''],
         stdout = [''error sending speech to u1, owner is Bo'', ''Server error'']\<rparr>)"
proof -
  have dir: "get_phone_numbers (example_world []) = Inr example_directory"
    by (simp add: example_get_phone_numbers)
  have ok: "nexmo (example_world []) c h q = Inr ''ok''" for c h q
    by (simp add: example_world_def)
  have err: "nexmo example_failing_world c h q = Inl (NexmoError ''Server error'')" for c h q
    by (simp add: example_failing_world_def)
  have desc: "environ (example_world []) ''HOTLINE_DESC'' = Some ''CoC hotline''"
    "environ example_failing_world ''HOTLINE_DESC'' = Some ''CoC hotline''"
    by (simp_all add: example_failing_world_def example_world_def)
  show ?thesis
    using answer_conference_call_suppresses_provider_error
            [of "example_request [(''to'', ''2222'')]" "''2222''" "''c1''" "''u1''"
                "example_world []" example_directory initial_state "''ok''" "[]",
             OF _ example_match_info dir]
          answer_conference_call_suppresses_provider_error
            [of "example_request [(''to'', ''2222'')]" "''2222''" "''c1''" "''u1''"
                example_failing_world example_directory initial_state "[]" "''Server error''",
             OF _ example_match_info example_failing_get_phone_numbers]
    by (simp add: example_query example_directory_def initial_state_def desc ok err Let_def)
qed

text \<open>
  Claim C7. The owner is looked up by equality of \<^verbatim>\<open>to\<close> with the \<^verbatim>\<open>phone\<close> of the
  directory entries: \<open>get_phone_number_owner\<close> returns the name of the first entry that
  matches, and \<^verbatim>\<open>None\<close> when none does. The speech request says
  \<^verbatim>\<open><owner> is joining this call.\<close> and, unless \<^verbatim>\<open>send_speech\<close> raises something
  other than \<^verbatim>\<open>nexmo.Error\<close>, the returned talk action says \<^verbatim>\<open>Hello <owner>, ...\<close>,
  where the owner is that name, or the text \<^verbatim>\<open>None\<close> that formatting the missing
  owner gives; no exception comes from the missing owner.
\<close>

theorem answer_conference_call_owner_lookup:
  assumes "query req ''to'' = Some to_phone_number"
      and "match_info req ''origin_conversation_uuid'' = Some origin_conversation_uuid"
      and "match_info req ''origin_call_uuid'' = Some origin_call_uuid"
      and "get_phone_numbers w = Inr phone_numbers"
  shows "let owner = (case find (\<lambda>p. phone p = to_phone_number) phone_numbers of
                        None \<Rightarrow> ''None'' | Some p \<Rightarrow> name p);
             speech = SendSpeech origin_call_uuid (owner @ '' is joining this call.'');
             outcome = nexmo w (get_nexmo_client w) (sent st) speech
         in get_phone_number_owner w to_phone_number
              = Inr (map_option name (find (\<lambda>p. phone p = to_phone_number) phone_numbers))
          \<and> sent (snd (answer_conference_call w req st)) = sent st @ [speech]
          \<and> (outcome = Inr reply \<or> outcome = Inl (NexmoError msg) \<longrightarrow>
               fst (answer_conference_call w req st) =
                 Inr (json_response (JList
                   [JObj [(''action'', JStr ''talk''),
                          (''text'', JStr (''Hello '' @ owner @ '', connecting you to ''
                                            @ format (environ w ''HOTLINE_DESC'') @ ''.''))],
                    JObj [(''action'', JStr ''conversation''),
                          (''name'', JStr origin_conversation_uuid),
                          (''startOnEnter'', JBool True),
                          (''endOnExit'', JBool True)]])))"
  using assms
  by (auto simp: answer_conference_call_def query_get_Some match_info_get_Some
        get_phone_number_owner_def get_hotline_description_def call_provider_def print_def
        Let_def owner_loop_find format_map_option_name
        split: sum.splits error.splits)

theorem answer_conference_call_owner_lookup_witness:
  "fst (answer_conference_call (example_world []) (example_request [(''to'', ''2222'')])
          initial_state)
     = Inr (json_response (JList
          [JObj [(''action'', JStr ''talk''),
                 (''text'', JStr ''Hello Bo, connecting you to CoC hotline.'')],
           JObj [(''action'', JStr ''conversation''), (''name'', JStr ''c1''),
                 (''startOnEnter'', JBool True), (''endOnExit'', JBool True)]]))
   \<and> get_phone_number_owner (example_world []) ''3333'' = Inr None
   \<and> sent (snd (answer_conference_call (example_world []) (example_request [(''to'', ''3333'')])
          initial_state))
     = [SendSpeech ''u1'' ''None is joining this call.'']
   \<and> fst (answer_conference_call (example_world []) (example_request [(''to'', ''3333'')])
          initial_state)
     = Inr (json_response (JList
          [JObj [(''action'', JStr ''talk''),
                 (''text'', JStr ''Hello None, connecting you to CoC hotline.'')],
           JObj [(''action'', JStr ''conversation''), (''name'', JStr ''c1''),
                 (''startOnEnter'', JBool True), (''endOnExit'', JBool True)]]))"
proof -
  have dir: "get_phone_numbers (example_world []) = Inr example_directory"
    by (simp add: example_get_phone_numbers)
  have ok: "nexmo (example_world []) c h q = Inr ''ok''" for c h q
    by (simp add: example_world_def)
  have desc: "environ (example_world []) ''HOTLINE_DESC'' = Some ''CoC hotline''"
    by (simp add: example_world_def)
  show ?thesis
    using answer_conference_call_owner_lookup
            [of "example_request [(''to'', ''2222'')]" "''2222''" "''c1''" "''u1''"
                "example_world []" example_directory initial_state "''ok''" "[]",
             OF _ example_match_info dir]
          answer_conference_call_owner_lookup
            [of "example_request [(''to'', ''3333'')]" "''3333''" "''c1''" "''u1''"
                "example_world []" example_directory initial_state "''ok''" "[]",
             OF _ example_match_info dir]
    by (simp add: example_query example_directory_def initial_state_def desc ok Let_def)
qed

section \<open>Answering an inbound call\<close>

text \<open>
  Claim C1, as stated, at a conversation identifier with a leading space: the handler
  strips both identifiers before it builds the answer URL, so the URL of each request
  holds \<^verbatim>\<open>c1\<close>, not the identifier \<^verbatim>\<open> c1\<close> that was given.
\<close>

theorem answer_call_url_counterexample:
  "query (example_request [(''to'', ''9999''), (''conversation_uuid'', '' c1''), (''uuid'', ''u1'')])
     ''conversation_uuid'' = Some '' c1''
   \<and> sent (snd (answer_call (example_world []) 0
        (example_request [(''to'', ''9999''), (''conversation_uuid'', '' c1''), (''uuid'', ''u1'')])
        initial_state))
     = [CreateCall
          [(''to'', JList [JObj [(''type'', JStr ''phone''), (''number'', JStr ''1111'')]]),
           (''from'', JObj [(''type'', JStr ''phone''), (''number'', JStr ''9999'')]),
           (''answer_url'',
            JList [JStr ''http://hotline.example.org/webhook/answer_conference_call/c1/u1/'']),
           (''machine_detection'', JStr ''hangup'')],
        CreateCall
          [(''to'', JList [JObj [(''type'', JStr ''phone''), (''number'', JStr ''2222'')]]),
           (''from'', JObj [(''type'', JStr ''phone''), (''number'', JStr ''9999'')]),
           (''answer_url'',
            JList [JStr ''http://hotline.example.org/webhook/answer_conference_call/c1/u1/'']),
           (''machine_detection'', JStr ''hangup'')]]
   \<and> ''http://hotline.example.org/webhook/answer_conference_call/c1/u1/''
       \<noteq> ''http://hotline.example.org/webhook/answer_conference_call/ c1/u1/''
   \<and> \<not> sublist '' c1'' ''http://hotline.example.org/webhook/answer_conference_call/c1/u1/''"
proof -
  have dir: "get_phone_numbers (example_world []) = Inr example_directory"
    by (simp add: example_get_phone_numbers)
  have q: "query (example_request [(''to'', ''9999''), (''conversation_uuid'', '' c1''),
                                   (''uuid'', ''u1'')]) ''to'' = Some ''9999''"
    "query (example_request [(''to'', ''9999''), (''conversation_uuid'', '' c1''),
                             (''uuid'', ''u1'')]) ''conversation_uuid'' = Some '' c1''"
    "query (example_request [(''to'', ''9999''), (''conversation_uuid'', '' c1''),
                             (''uuid'', ''u1'')]) ''uuid'' = Some ''u1''"
    by (simp_all add: example_query)
  have no: "\<not> sublist '' c1'' ''http://hotline.example.org/webhook/answer_conference_call/c1/u1/''"
    by code_simp
  show ?thesis
    using answer_call_run [where st = initial_state and rnd = 0, OF q dir example_accepts] no q(2)
    by (simp add: strip_example example_host example_directory_def initial_state_def
          create_call_params_def answer_url_def)
qed

text \<open>
  Claim C1, amended. For a request with \<^verbatim>\<open>to\<close>, \<^verbatim>\<open>conversation_uuid\<close> and \<^verbatim>\<open>uuid\<close>,
  a directory of N entries and a provider that raises on none of the calls:
  \<open>answer_call\<close> issues exactly N \<^verbatim>\<open>create_call\<close> requests, one per entry in directory
  order, each to that entry's phone, from the dialled hotline number, with the answer URL
  \<^verbatim>\<open>http://<host>/webhook/answer_conference_call/<conversation_uuid>/<call_uuid>/\<close>
  built from the two identifiers with leading and trailing white space removed, and with
  machine detection set to \<^verbatim>\<open>hangup\<close>. Nothing is printed.
\<close>

theorem answer_call_dials_every_staff_member:
  assumes "query req ''to'' = Some hotline_number"
      and "query req ''conversation_uuid'' = Some conversation_uuid"
      and "query req ''uuid'' = Some call_uuid"
      and "get_phone_numbers w = Inr phone_numbers"
      and "accepts w (get_nexmo_client w) (sent st)
             (map (\<lambda>p. CreateCall
                [(''to'', JList [JObj [(''type'', JStr ''phone''), (''number'', JStr (phone p))]]),
                 (''from'', JObj [(''type'', JStr ''phone''), (''number'', JStr hotline_number)]),
                 (''answer_url'',
                  JList [JStr (''http://'' @ host req @ ''/webhook/answer_conference_call/''
                                 @ strip conversation_uuid @ ''/'' @ strip call_uuid @ ''/'')]),
                 (''machine_detection'', JStr ''hangup'')]) phone_numbers)"
  shows "sent (snd (answer_call w rnd req st)) = sent st @
           map (\<lambda>p. CreateCall
                [(''to'', JList [JObj [(''type'', JStr ''phone''), (''number'', JStr (phone p))]]),
                 (''from'', JObj [(''type'', JStr ''phone''), (''number'', JStr hotline_number)]),
                 (''answer_url'',
                  JList [JStr (''http://'' @ host req @ ''/webhook/answer_conference_call/''
                                 @ strip conversation_uuid @ ''/'' @ strip call_uuid @ ''/'')]),
                 (''machine_detection'', JStr ''hangup'')]) phone_numbers
         \<and> length (sent (snd (answer_call w rnd req st)))
             = length (sent st) + length phone_numbers
         \<and> stdout (snd (answer_call w rnd req st)) = stdout st"
proof -
  have same: "(\<lambda>p. CreateCall
                [(''to'', JList [JObj [(''type'', JStr ''phone''), (''number'', JStr (phone p))]]),
                 (''from'', JObj [(''type'', JStr ''phone''), (''number'', JStr hotline_number)]),
                 (''answer_url'',
                  JList [JStr (''http://'' @ host req @ ''/webhook/answer_conference_call/''
                                 @ strip conversation_uuid @ ''/'' @ strip call_uuid @ ''/'')]),
                 (''machine_detection'', JStr ''hangup'')])
      = (\<lambda>p. CreateCall (create_call_params hotline_number (host req)
                  (strip conversation_uuid) (strip call_uuid) p))"
    by (simp add: create_call_params_def answer_url_def)
  show ?thesis
    using answer_call_run [OF assms(1-4) assms(5)[unfolded same], of rnd]
    unfolding same by simp
qed

theorem answer_call_dials_every_staff_member_witness:
  "get_phone_numbers (example_world []) = Inr example_directory
   \<and> sent (snd (answer_call (example_world []) 3
        (example_request [(''to'', ''9999''), (''conversation_uuid'', '' c1''), (''uuid'', ''u1'')])
        initial_state))
     = [CreateCall
          [(''to'', JList [JObj [(''type'', JStr ''phone''), (''number'', JStr ''1111'')]]),
           (''from'', JObj [(''type'', JStr ''phone''), (''number'', JStr ''9999'')]),
           (''answer_url'',
            JList [JStr ''http://hotline.example.org/webhook/answer_conference_call/c1/u1/'']),
           (''machine_detection'', JStr ''hangup'')],
        CreateCall
          [(''to'', JList [JObj [(''type'', JStr ''phone''), (''number'', JStr ''2222'')]]),
           (''from'', JObj [(''type'', JStr ''phone''), (''number'', JStr ''9999'')]),
           (''answer_url'',
            JList [JStr ''http://hotline.example.org/webhook/answer_conference_call/c1/u1/'']),
           (''machine_detection'', JStr ''hangup'')]]"
proof -
  have dir: "get_phone_numbers (example_world []) = Inr example_directory"
    by (simp add: example_get_phone_numbers)
  have q: "query (example_request [(''to'', ''9999''), (''conversation_uuid'', '' c1''),
                                   (''uuid'', ''u1'')]) ''to'' = Some ''9999''"
    "query (example_request [(''to'', ''9999''), (''conversation_uuid'', '' c1''),
                             (''uuid'', ''u1'')]) ''conversation_uuid'' = Some '' c1''"
    "query (example_request [(''to'', ''9999''), (''conversation_uuid'', '' c1''),
                             (''uuid'', ''u1'')]) ''uuid'' = Some ''u1''"
    by (simp_all add: example_query)
  show ?thesis
    using answer_call_dials_every_staff_member [where st = initial_state and rnd = 3, OF q dir example_accepts] dir
    by (simp add: strip_example example_host example_directory_def initial_state_def)
qed

text \<open>
  Claim C2, as stated, with recording switched on: the greeting ends in the sentence
  \<^verbatim>\<open> This call is recorded.\<close>; the text \<^verbatim>\<open>, this call is recorded\<close> occurs nowhere
  in it.
\<close>

theorem answer_call_disclosure_counterexample:
  "is_auto_recording example_recording_world
   \<and> fst (answer_call example_recording_world 0
        (example_request [(''to'', ''9999''), (''conversation_uuid'', ''c1''), (''uuid'', ''u1'')])
        initial_state)
     = Inr (json_response (JList
        [JObj [(''action'', JStr ''talk''),
               (''text'', JStr ''You've reached the CoC hotline. This call is recorded.'')],
         JObj [(''action'', JStr ''conversation''),
               (''name'', JStr ''c1''),
               (''musicOnHoldUrl'', JList [JStr (MUSIC_WHILE_YOU_WAIT ! 0)]),
               (''endOnExit'', JBool False),
               (''startOnEnter'', JBool False),
               (''record'', JBool True),
               (''eventUrl'', JList [JStr ''https://hooks.zapier.com/hooks/catch/1/''])]]))
   \<and> ''You've reached the CoC hotline. This call is recorded.''
       \<noteq> ''You've reached the CoC hotline.'' @ '', this call is recorded''
   \<and> \<not> sublist '', this call is recorded''
         ''You've reached the CoC hotline. This call is recorded.''"
proof -
  have no: "\<not> sublist '', this call is recorded''
         ''You've reached the CoC hotline. This call is recorded.''"
    by code_simp
  show ?thesis
    using answer_call_run [where st = initial_state and rnd = 0,
            OF example_call_query example_recording_world_facts(1)
               example_recording_world_facts(5)]
          no
    by (simp add: example_recording_world_facts strip_c1)
qed

text \<open>
  Claim C2, amended. When auto-recording is enabled, \<open>answer_call\<close> appends the text
  \<^verbatim>\<open> This call is recorded.\<close> to the greeting, and the conversation action of the
  returned JSON carries \<^verbatim>\<open>record\<close> true and an \<^verbatim>\<open>eventUrl\<close> list whose one element is
  the configured \<^verbatim>\<open>ZAPIER_CATCH_HOOK_RECORDING_FINISHED_URL\<close> (null when it is not
  set). Stated for a request with its three parameters, a directory that loads and a
  provider that raises on none of the calls.
\<close>

theorem answer_call_recording_enabled:
  assumes "query req ''to'' = Some hotline_number"
      and "query req ''conversation_uuid'' = Some conversation_uuid"
      and "query req ''uuid'' = Some call_uuid"
      and "get_phone_numbers w = Inr phone_numbers"
      and "accepts w (get_nexmo_client w) (sent st)
             (map (\<lambda>p. CreateCall (create_call_params hotline_number (host req)
                                      (strip conversation_uuid) (strip call_uuid) p))
                phone_numbers)"
      and "is_auto_recording w"
  shows "fst (answer_call w rnd req st) =
     Inr (json_response (JList
        [JObj [(''action'', JStr ''talk''),
               (''text'', JStr ((''You've reached the '' @ format (environ w ''HOTLINE_DESC'')
                                  @ ''.'') @ '' This call is recorded.''))],
         JObj [(''action'', JStr ''conversation''),
               (''name'', JStr (strip conversation_uuid)),
               (''musicOnHoldUrl'', JList [JStr (MUSIC_WHILE_YOU_WAIT ! (rnd mod 5))]),
               (''endOnExit'', JBool False),
               (''startOnEnter'', JBool False),
               (''record'', JBool True),
               (''eventUrl'',
                JList [opt_json (environ w ''ZAPIER_CATCH_HOOK_RECORDING_FINISHED_URL'')])]]))"
  using answer_call_run [OF assms(1-5), of rnd] assms(6) by simp

theorem answer_call_recording_enabled_witness:
  "is_auto_recording example_recording_world
   \<and> fst (answer_call example_recording_world 6
        (example_request [(''to'', ''9999''), (''conversation_uuid'', ''c1''), (''uuid'', ''u1'')])
        initial_state)
     = Inr (json_response (JList
        [JObj [(''action'', JStr ''talk''),
               (''text'', JStr ''You've reached the CoC hotline. This call is recorded.'')],
         JObj [(''action'', JStr ''conversation''),
               (''name'', JStr ''c1''),
               (''musicOnHoldUrl'', JList [JStr (MUSIC_WHILE_YOU_WAIT ! 1)]),
               (''endOnExit'', JBool False),
               (''startOnEnter'', JBool False),
               (''record'', JBool True),
               (''eventUrl'', JList [JStr ''https://hooks.zapier.com/hooks/catch/1/''])]]))"
  using answer_call_recording_enabled [where st = initial_state and rnd = 6,
          OF example_call_query example_recording_world_facts(1)
             example_recording_world_facts(5) example_recording_world_facts(2)]
  by (simp add: example_recording_world_facts strip_c1)

text \<open>
  Claim C3, as stated, at a conversation identifier with a leading space: the name of the
  conversation action is the stripped identifier \<^verbatim>\<open>c1\<close>, not the supplied \<^verbatim>\<open> c1\<close>.
\<close>

theorem answer_call_name_counterexample:
  "\<not> is_auto_recording (example_world [])
   \<and> query (example_request [(''to'', ''9999''), (''conversation_uuid'', '' c1''), (''uuid'', ''u1'')])
       ''conversation_uuid'' = Some '' c1''
   \<and> fst (answer_call (example_world []) 0
        (example_request [(''to'', ''9999''), (''conversation_uuid'', '' c1''), (''uuid'', ''u1'')])
        initial_state)
     = Inr (json_response (JList
        [JObj [(''action'', JStr ''talk''),
               (''text'', JStr ''You've reached the CoC hotline.'')],
         JObj [(''action'', JStr ''conversation''),
               (''name'', JStr ''c1''),
               (''musicOnHoldUrl'', JList [JStr (MUSIC_WHILE_YOU_WAIT ! 0)]),
               (''endOnExit'', JBool False),
               (''startOnEnter'', JBool False)]]))
   \<and> JStr ''c1'' \<noteq> JStr '' c1''"
proof -
  have dir: "get_phone_numbers (example_world []) = Inr example_directory"
    by (simp add: example_get_phone_numbers)
  have desc: "environ (example_world []) ''HOTLINE_DESC'' = Some ''CoC hotline''"
    by (simp add: example_world_def)
  show ?thesis
    using answer_call_run [where st = initial_state and rnd = 0,
            OF example_call_query dir example_accepts]
          example_not_recording
    by (simp add: example_call_query strip_example desc)
qed

text \<open>
  Claim C3, amended. When auto-recording is disabled, \<open>answer_call\<close> returns exactly two
  instructions: a talk action with the text \<^verbatim>\<open>You've reached the <description>.\<close> and
  nothing after it, and a conversation action whose name is the supplied conversation
  identifier with leading and trailing white space removed, with \<^verbatim>\<open>endOnExit\<close> and
  \<^verbatim>\<open>startOnEnter\<close> false, a one-element \<^verbatim>\<open>musicOnHoldUrl\<close> and no \<^verbatim>\<open>record\<close> or
  \<^verbatim>\<open>eventUrl\<close> entry. The playlist has five tracks, and over the draws of the random
  source the tracks returned are exactly those of the playlist. Stated for a request with
  its three parameters, a directory that loads and a provider that raises on none of the
  calls.
\<close>

theorem answer_call_recording_disabled:
  assumes "query req ''to'' = Some hotline_number"
      and "query req ''conversation_uuid'' = Some conversation_uuid"
      and "query req ''uuid'' = Some call_uuid"
      and "get_phone_numbers w = Inr phone_numbers"
      and "accepts w (get_nexmo_client w) (sent st)
             (map (\<lambda>p. CreateCall (create_call_params hotline_number (host req)
                                      (strip conversation_uuid) (strip call_uuid) p))
                phone_numbers)"
      and "\<not> is_auto_recording w"
  shows "fst (answer_call w rnd req st) =
     Inr (json_response (JList
        [JObj [(''action'', JStr ''talk''),
               (''text'', JStr (''You've reached the '' @ format (environ w ''HOTLINE_DESC'')
                                  @ ''.''))],
         JObj [(''action'', JStr ''conversation''),
               (''name'', JStr (strip conversation_uuid)),
               (''musicOnHoldUrl'', JList [JStr (MUSIC_WHILE_YOU_WAIT ! (rnd mod 5))]),
               (''endOnExit'', JBool False),
               (''startOnEnter'', JBool False)]]))
   \<and> length MUSIC_WHILE_YOU_WAIT = 5
   \<and> {track. \<exists>draw. fst (answer_call w draw req st) =
        Inr (json_response (JList
          [JObj [(''action'', JStr ''talk''),
                 (''text'', JStr (''You've reached the '' @ format (environ w ''HOTLINE_DESC'')
                                    @ ''.''))],
           JObj [(''action'', JStr ''conversation''),
                 (''name'', JStr (strip conversation_uuid)),
                 (''musicOnHoldUrl'', JList [JStr track]),
                 (''endOnExit'', JBool False),
                 (''startOnEnter'', JBool False)]]))}
       = set MUSIC_WHILE_YOU_WAIT"
proof -
  have run: "fst (answer_call w draw req st) =
     Inr (json_response (JList
        [JObj [(''action'', JStr ''talk''),
               (''text'', JStr (''You've reached the '' @ format (environ w ''HOTLINE_DESC'')
                                  @ ''.''))],
         JObj [(''action'', JStr ''conversation''),
               (''name'', JStr (strip conversation_uuid)),
               (''musicOnHoldUrl'', JList [JStr (MUSIC_WHILE_YOU_WAIT ! (draw mod 5))]),
               (''endOnExit'', JBool False),
               (''startOnEnter'', JBool False)]]))" for draw
    using answer_call_run [OF assms(1-5), of draw] assms(6) by simp
  have "{track. \<exists>draw. MUSIC_WHILE_YOU_WAIT ! (draw mod 5) = track}
          = range (\<lambda>draw. MUSIC_WHILE_YOU_WAIT ! (draw mod 5))"
    by auto
  then have choices: "{track. \<exists>draw. MUSIC_WHILE_YOU_WAIT ! (draw mod 5) = track}
          = set MUSIC_WHILE_YOU_WAIT"
    by (simp only: music_choices)
  have len: "length MUSIC_WHILE_YOU_WAIT = 5"
    by (simp add: MUSIC_WHILE_YOU_WAIT_def)
  show ?thesis
    using run [of rnd] len choices by (simp add: run json_response_def)
qed

theorem answer_call_recording_disabled_witness:
  "\<not> is_auto_recording (example_world [])
   \<and> fst (answer_call (example_world []) 7
        (example_request [(''to'', ''9999''), (''conversation_uuid'', ''c1''), (''uuid'', ''u1'')])
        initial_state)
     = Inr (json_response (JList
        [JObj [(''action'', JStr ''talk''),
               (''text'', JStr ''You've reached the CoC hotline.'')],
         JObj [(''action'', JStr ''conversation''),
               (''name'', JStr ''c1''),
               (''musicOnHoldUrl'', JList [JStr (MUSIC_WHILE_YOU_WAIT ! 2)]),
               (''endOnExit'', JBool False),
               (''startOnEnter'', JBool False)]]))"
proof -
  have dir: "get_phone_numbers (example_world []) = Inr example_directory"
    by (simp add: example_get_phone_numbers)
  have desc: "environ (example_world []) ''HOTLINE_DESC'' = Some ''CoC hotline''"
    by (simp add: example_world_def)
  show ?thesis
    using answer_call_recording_disabled [where st = initial_state and rnd = 7,
            OF example_call_query dir example_accepts example_not_recording]
          example_not_recording
    by (simp add: strip_c1 desc)
qed

end
